theory Spec2Isabelle
  imports Complex_Main
begin

section \<open>The training script \<^verbatim>\<open>scripts/train.py\<close>\<close>

text \<open>
  The script wires configuration records into objects of the training framework. The
  model below follows it function by function: \<^verbatim>\<open>build_scheduler\<close>,
  \<^verbatim>\<open>build_algorithm\<close>, \<^verbatim>\<open>main\<close> and the
  \<^verbatim>\<open>__main__\<close> block.

  Conventions of the model:
  \<^item> a Python value that the script only passes on (a seed, a batch size, a keyword
    argument) is a \<open>pyval\<close>;
  \<^item> an object of the framework is the constructor call that builds it, so two objects
    are equal exactly when they were built by the same call with the same arguments;
  \<^item> an exception raised by the script is a value of \<open>exn\<close>; calls into the
    framework and into the \<^verbatim>\<open>dolma\<close> package are taken to return;
  \<^item> a call made for its effect is an \<open>event\<close>, and a run is the list of its
    events in program order.
\<close>

subsection \<open>Values, exceptions and framework objects\<close>

datatype pyval =
    VNone
  | VBool bool
  | VInt int
  | VFloat real
  | VStr string
  | VList "pyval list"
  | VDict "(string \<times> pyval) list"

text \<open>A keyword map, in insertion order as a Python \<^verbatim>\<open>dict\<close> keeps it.\<close>

type_synonym kwargs = "(string \<times> pyval) list"

datatype exn =
    DolmaConfigurationError string
  | DolmaCliError string
  | ValueError string
  | IndexError
  | AssertionError

text \<open>
  The schedulers of \<^verbatim>\<open>composer.optim.scheduler\<close>. The arguments are the keyword
  arguments \<^verbatim>\<open>t_warmup\<close> and, for the last two, \<^verbatim>\<open>alpha_f\<close>.
\<close>

datatype scheduler_obj =
    ConstantWithWarmupScheduler pyval
  | CosineAnnealingWithWarmupScheduler pyval pyval
  | LinearWithWarmupScheduler pyval pyval

text \<open>The algorithms of \<^verbatim>\<open>composer.algorithms\<close>, each built from \<^verbatim>\<open>**kwargs\<close>.\<close>

datatype algorithm_obj =
    GradientClipping kwargs
  | FusedLayerNorm kwargs
  | GatedLinearUnits kwargs
  | LowPrecisionLayerNorm kwargs

record SchedulerConfig =
  name :: string
  t_warmup :: pyval
  alpha_f :: pyval

subsection \<open>The two dispatchers\<close>

definition build_scheduler :: "SchedulerConfig \<Rightarrow> exn + scheduler_obj" where
  "build_scheduler cfg =
     (if name cfg = ''constant_with_warmup'' then
        Inr (ConstantWithWarmupScheduler (t_warmup cfg))
      else if name cfg = ''cosine_with_warmup'' then
        Inr (CosineAnnealingWithWarmupScheduler (t_warmup cfg) (alpha_f cfg))
      else if name cfg = ''linear_decay_with_warmup'' then
        Inr (LinearWithWarmupScheduler (t_warmup cfg) (alpha_f cfg))
      else
        Inl (DolmaConfigurationError (''Not sure how to build scheduler: '' @ name cfg)))"

definition build_algorithm :: "string \<Rightarrow> kwargs \<Rightarrow> exn + algorithm_obj" where
  "build_algorithm nm kw =
     (if nm = ''gradient_clipping'' then Inr (GradientClipping kw)
      else if nm = ''fused_layernorm'' then Inr (FusedLayerNorm kw)
      else if nm = ''gated_linear_units'' then Inr (GatedLinearUnits kw)
      else if nm = ''low_precision_layernorm'' then Inr (LowPrecisionLayerNorm kw)
      else Inl (ValueError (''Not sure how to build algorithm: '' @ nm)))"

subsection \<open>Configuration, framework calls and runs\<close>

text \<open>
  The fields of \<^verbatim>\<open>TrainConfig\<close> that \<^verbatim>\<open>main\<close> reads.
  \<open>optimizer\<close> and \<open>wandb\<close> hold what \<^verbatim>\<open>asdict()\<close> gives for
  them. \<open>algorithms\<close> is an optional map from algorithm names to keyword maps, kept
  in entry order.
\<close>

record TrainConfig =
  run_name :: "string option"
  seed :: pyval
  dry_run :: bool
  model :: pyval
  optimizer :: kwargs
  scheduler :: SchedulerConfig
  algorithms :: "(string \<times> kwargs) list option"
  wandb :: "kwargs option"
  console_log_interval :: pyval
  global_train_batch_size :: pyval
  device_train_batch_size :: pyval
  device_train_microbatch_size :: pyval
  max_duration :: pyval
  precision :: pyval
  fsdp_config :: pyval
  save_folder :: pyval
  save_interval :: pyval
  save_num_checkpoints_to_keep :: pyval
  save_overwrite :: pyval
  load_path :: pyval
  load_weights_only :: pyval

datatype model_obj = ComposerDolmaGPT pyval

datatype optimizer_obj = ConfigureOptimizer model_obj kwargs

datatype dataloader_obj = BuildDataloader TrainConfig pyval

datatype callback_obj = SpeedMonitorMFU

datatype logger_obj = DolmaConsoleLogger pyval | WandBLogger kwargs

text \<open>The keyword arguments of the \<^verbatim>\<open>Trainer\<close> constructor, in the order of the call.\<close>

record trainer_args =
  arg_run_name :: "string option"
  arg_seed :: pyval
  arg_model :: model_obj
  arg_train_dataloader :: dataloader_obj
  arg_optimizers :: optimizer_obj
  arg_schedulers :: scheduler_obj
  arg_max_duration :: pyval
  arg_precision :: pyval
  arg_device_train_microbatch_size :: pyval
  arg_fsdp_config :: pyval
  arg_save_folder :: pyval
  arg_save_interval :: pyval
  arg_save_num_checkpoints_to_keep :: pyval
  arg_save_overwrite :: pyval
  arg_load_path :: pyval
  arg_load_weights_only :: pyval
  arg_callbacks :: "callback_obj list"
  arg_loggers :: "logger_obj list"
  arg_algorithms :: "algorithm_obj list"
  arg_progress_bar :: bool
  arg_log_to_console :: bool
  arg_console_log_interval :: pyval

text \<open>
  What \<^verbatim>\<open>echo.info\<close> is given. The numbers that the framework supplies (parameter
  counts, ranks, the number of the CUDA device) are left out of the message; the device
  identifier is kept.
\<close>

datatype message =
    Configuration TrainConfig
  | BatchSizes pyval pyval
  | TotalParams
  | NonEmbeddingParams
  | Ranks string

datatype event =
    PrepareCliEnvironment
  | TrainConfigLoad string "string list"
  | EchoInfo message
  | EchoSuccess string
  | SeedAll pyval
  | InitializeDist
  | EnvironGet string
  | UpdateBatchSizeInfo TrainConfig
  | ModelInit pyval
  | NumParams bool
  | OptimizerInit kwargs
  | DataloaderInit TrainConfig pyval
  | TrainerInit trainer_args
  | CudaCurrentDevice
  | TrainerFit
  | TrainerClose

text \<open>
  What the script takes from outside itself. \<^verbatim>\<open>update_batch_size_info\<close>,
  \<^verbatim>\<open>clean_opt\<close> and \<^verbatim>\<open>TrainConfig.load\<close> belong to the
  \<^verbatim>\<open>dolma\<close> package, whose code is not part of the script, so they are
  parameters. \<open>batch_size_info\<close> gives the values that
  \<^verbatim>\<open>update_batch_size_info\<close> stores for the global, per-device and micro batch size;
  going by its name and by the comment at its call it writes nothing else.
  \<open>device_id\<close> is \<^verbatim>\<open>trainer.state.device.name.upper()\<close>.
\<close>

record externals =
  environ :: "string \<Rightarrow> string option"
  batch_size_info :: "TrainConfig \<Rightarrow> pyval \<times> pyval \<times> pyval"
  device_id :: string
  clean_opt :: "string \<Rightarrow> string"
  TrainConfig_load :: "string \<Rightarrow> string list \<Rightarrow> TrainConfig"

text \<open>
  A run of \<^verbatim>\<open>main\<close>: its events, the configuration object as the run leaves it
  (\<^verbatim>\<open>main\<close> assigns to its fields), and the exception it ended with, if any.
\<close>

record run =
  events :: "event list"
  cfg_out :: TrainConfig
  raised :: "exn option"

subsection \<open>\<^verbatim>\<open>main\<close>\<close>

text \<open>\<^verbatim>\<open>isinstance(v, int)\<close>: in Python \<^verbatim>\<open>bool\<close> is a subclass of \<^verbatim>\<open>int\<close>.\<close>

fun isinstance_int :: "pyval \<Rightarrow> bool" where
  "isinstance_int (VInt _) = True"
| "isinstance_int (VBool _) = True"
| "isinstance_int _ = False"

text \<open>\<^verbatim>\<open>os.environ.get(key, default)\<close>.\<close>

definition environ_get :: "externals \<Rightarrow> string \<Rightarrow> string \<Rightarrow> string" where
  "environ_get w key dflt = (case environ w key of Some v \<Rightarrow> v | None \<Rightarrow> dflt)"

definition update_batch_size_info :: "externals \<Rightarrow> TrainConfig \<Rightarrow> TrainConfig" where
  "update_batch_size_info w cfg =
     (case batch_size_info w cfg of
        (g, d, m) \<Rightarrow>
          cfg\<lparr>global_train_batch_size := g, device_train_batch_size := d,
              device_train_microbatch_size := m\<rparr>)"

text \<open>
  \<^verbatim>\<open>(cfg.algorithms or {}).items()\<close>: \<^verbatim>\<open>None\<close> and the empty map are
  both false, and then the entries are those of the fresh empty map.
\<close>

definition algorithm_items :: "TrainConfig \<Rightarrow> (string \<times> kwargs) list" where
  "algorithm_items cfg =
     (case algorithms cfg of
        None \<Rightarrow> []
      | Some d \<Rightarrow> (if d = [] then [] else d))"

text \<open>
  The list comprehension over the entries: \<open>build_algorithm\<close> is called entry by
  entry, and the first exception ends the comprehension.
\<close>

fun build_algorithms :: "(string \<times> kwargs) list \<Rightarrow> exn + algorithm_obj list" where
  "build_algorithms [] = Inr []"
| "build_algorithms ((nm, algorithm_cfg) # rest) =
     (case build_algorithm nm algorithm_cfg of
        Inl e \<Rightarrow> Inl e
      | Inr a \<Rightarrow>
          (case build_algorithms rest of
             Inl e \<Rightarrow> Inl e
           | Inr others \<Rightarrow> Inr (a # others)))"

definition trainer_kwargs ::
  "TrainConfig \<Rightarrow> model_obj \<Rightarrow> dataloader_obj \<Rightarrow> optimizer_obj \<Rightarrow> scheduler_obj \<Rightarrow>
   callback_obj list \<Rightarrow> logger_obj list \<Rightarrow> algorithm_obj list \<Rightarrow> trainer_args" where
  "trainer_kwargs cfg mdl train_loader opt sched callbacks loggers algs =
     \<lparr>arg_run_name = run_name cfg,
      arg_seed = seed cfg,
      arg_model = mdl,
      arg_train_dataloader = train_loader,
      arg_optimizers = opt,
      arg_schedulers = sched,
      arg_max_duration = max_duration cfg,
      arg_precision = precision cfg,
      arg_device_train_microbatch_size = device_train_microbatch_size cfg,
      arg_fsdp_config = fsdp_config cfg,
      arg_save_folder = save_folder cfg,
      arg_save_interval = save_interval cfg,
      arg_save_num_checkpoints_to_keep = save_num_checkpoints_to_keep cfg,
      arg_save_overwrite = save_overwrite cfg,
      arg_load_path = load_path cfg,
      arg_load_weights_only = load_weights_only cfg,
      arg_callbacks = callbacks,
      arg_loggers = loggers,
      arg_algorithms = algs,
      arg_progress_bar = False,
      arg_log_to_console = False,
      arg_console_log_interval = console_log_interval cfg\<rparr>"

text \<open>
  The part of \<^verbatim>\<open>main\<close> from the construction of the loggers to the end: nothing
  in it is raised by the script.
\<close>

definition train ::
  "externals \<Rightarrow> TrainConfig \<Rightarrow> model_obj \<Rightarrow> dataloader_obj \<Rightarrow> optimizer_obj \<Rightarrow> scheduler_obj \<Rightarrow>
   algorithm_obj list \<Rightarrow> event list" where
  "train w cfg mdl train_loader opt sched algs =
     (let callbacks = [SpeedMonitorMFU];
          loggers = [DolmaConsoleLogger (console_log_interval cfg)] @
                    (case wandb cfg of None \<Rightarrow> [] | Some kw \<Rightarrow> [WandBLogger kw])
      in [TrainerInit (trainer_kwargs cfg mdl train_loader opt sched callbacks loggers algs)] @
         (if device_id w = ''GPU''
          then [CudaCurrentDevice, EchoInfo (Ranks (device_id w))]
          else [EchoInfo (Ranks (device_id w))]) @
         (if \<not> dry_run cfg then [TrainerFit] else []) @
         [TrainerClose] @
         (if dry_run cfg then [EchoSuccess ''Dry run complete'']
          else [EchoSuccess ''Training complete'']))"

definition main :: "externals \<Rightarrow> TrainConfig \<Rightarrow> run" where
  "main w cfg0 =
     (let es1 = [EchoInfo (Configuration cfg0), SeedAll (seed cfg0), InitializeDist];
          (cfg1, es2) =
            (if run_name cfg0 = None
             then (cfg0\<lparr>run_name := Some (environ_get w ''COMPOSER_RUN_NAME'' ''llm'')\<rparr>,
                   es1 @ [EnvironGet ''COMPOSER_RUN_NAME''])
             else (cfg0, es1));
          cfg = update_batch_size_info w cfg1;
          es3 = es2 @ [UpdateBatchSizeInfo cfg1]
      in if \<not> isinstance_int (device_train_batch_size cfg) then
           \<lparr>events = es3, cfg_out = cfg, raised = Some AssertionError\<rparr>
         else
           let mdl = ComposerDolmaGPT (model cfg);
               opt = ConfigureOptimizer mdl (optimizer cfg);
               es4 = es3 @
                     [EchoInfo (BatchSizes (device_train_batch_size cfg) (global_train_batch_size cfg)),
                      ModelInit (model cfg),
                      NumParams True, EchoInfo TotalParams,
                      NumParams False, EchoInfo NonEmbeddingParams,
                      OptimizerInit (optimizer cfg)]
           in case build_scheduler (scheduler cfg) of
                Inl e \<Rightarrow> \<lparr>events = es4, cfg_out = cfg, raised = Some e\<rparr>
              | Inr sched \<Rightarrow>
                  let train_loader = BuildDataloader cfg (device_train_batch_size cfg);
                      es5 = es4 @ [DataloaderInit cfg (device_train_batch_size cfg)]
                  in (case build_algorithms (algorithm_items cfg) of
                        Inl e \<Rightarrow> \<lparr>events = es5, cfg_out = cfg, raised = Some e\<rparr>
                      | Inr algs \<Rightarrow>
                          \<lparr>events = es5 @ train w cfg mdl train_loader opt sched algs,
                           cfg_out = cfg, raised = None\<rparr>))"

subsection \<open>The \<^verbatim>\<open>__main__\<close> block\<close>

text \<open>
  \<^verbatim>\<open>sys.argv[1]\<close> raises \<^verbatim>\<open>IndexError\<close> when the list has fewer than two
  elements; the handler then builds the usage message from \<^verbatim>\<open>sys.argv[0]\<close>, which
  raises \<^verbatim>\<open>IndexError\<close> itself when the list is empty. \<^verbatim>\<open>sys.argv[2:]\<close>
  never raises. A run of the block is its events and the exception it ended with.
\<close>

definition cli :: "externals \<Rightarrow> string list \<Rightarrow> event list \<times> exn option" where
  "cli w argv =
     (if length argv < 2 then
        (if argv = [] then ([PrepareCliEnvironment], Some IndexError)
         else ([PrepareCliEnvironment],
               Some (DolmaCliError (''Usage: '' @ argv ! 0 @ '' [CONFIG_PATH] [OPTIONS]''))))
      else
        let yaml_path = argv ! 1;
            args_list = drop 2 argv;
            overrides = map (clean_opt w) args_list;
            cfg = TrainConfig_load w yaml_path overrides;
            r = main w cfg
        in ([PrepareCliEnvironment, TrainConfigLoad yaml_path overrides] @ events r, raised r))"

subsection \<open>Sample inputs\<close>

definition sample_scheduler :: SchedulerConfig where
  "sample_scheduler = \<lparr>name = ''cosine_with_warmup'', t_warmup = VInt 100, alpha_f = VFloat 0.1\<rparr>"

definition sample_cfg :: TrainConfig where
  "sample_cfg =
     \<lparr>run_name = None,
      seed = VInt 6198,
      dry_run = False,
      model = VDict [(''n_layers'', VInt 5)],
      optimizer = [(''learning_rate'', VFloat 0.0002)],
      scheduler = sample_scheduler,
      algorithms = Some [(''gradient_clipping'', [(''clipping_threshold'', VFloat 1)]),
                         (''fused_layernorm'', [])],
      wandb = None,
      console_log_interval = VInt 1,
      global_train_batch_size = VInt 512,
      device_train_batch_size = VNone,
      device_train_microbatch_size = VInt 16,
      max_duration = VStr ''10ep'',
      precision = VNone,
      fsdp_config = VNone,
      save_folder = VStr ''./checkpoints'',
      save_interval = VStr ''1ep'',
      save_num_checkpoints_to_keep = VInt (-1),
      save_overwrite = VBool False,
      load_path = VNone,
      load_weights_only = VBool False\<rparr>"

definition sample_externals :: externals where
  "sample_externals =
     \<lparr>environ = Map.empty,
      batch_size_info = (\<lambda>cfg. (global_train_batch_size cfg, VInt 64, device_train_microbatch_size cfg)),
      device_id = ''CPU'',
      clean_opt = (\<lambda>s. s),
      TrainConfig_load = (\<lambda>path overrides. sample_cfg)\<rparr>"

section \<open>Properties of the dispatchers\<close>

text \<open>
  Claim C1. For a scheduler configuration with a recognized name, \<open>build_scheduler\<close>
  returns the scheduler that the name stands for, built from the configuration's own
  parameters: \<open>t_warmup\<close> for the constant schedule, \<open>t_warmup\<close> and
  \<open>alpha_f\<close> for the cosine and the linear one.
\<close>

theorem build_scheduler_recognized:
  "(name cfg = ''constant_with_warmup'' \<longrightarrow>
      build_scheduler cfg = Inr (ConstantWithWarmupScheduler (t_warmup cfg))) \<and>
   (name cfg = ''cosine_with_warmup'' \<longrightarrow>
      build_scheduler cfg = Inr (CosineAnnealingWithWarmupScheduler (t_warmup cfg) (alpha_f cfg))) \<and>
   (name cfg = ''linear_decay_with_warmup'' \<longrightarrow>
      build_scheduler cfg = Inr (LinearWithWarmupScheduler (t_warmup cfg) (alpha_f cfg)))"
  by (simp add: build_scheduler_def)

theorem build_scheduler_recognized_witness:
  "build_scheduler \<lparr>name = ''constant_with_warmup'', t_warmup = VInt 100, alpha_f = VFloat 0.1\<rparr>
     = Inr (ConstantWithWarmupScheduler (VInt 100)) \<and>
   build_scheduler \<lparr>name = ''cosine_with_warmup'', t_warmup = VInt 100, alpha_f = VFloat 0.1\<rparr>
     = Inr (CosineAnnealingWithWarmupScheduler (VInt 100) (VFloat 0.1)) \<and>
   build_scheduler \<lparr>name = ''linear_decay_with_warmup'', t_warmup = VStr ''2ba'', alpha_f = VFloat 0\<rparr>
     = Inr (LinearWithWarmupScheduler (VStr ''2ba'') (VFloat 0))"
  using
    build_scheduler_recognized
      [of "\<lparr>name = ''constant_with_warmup'', t_warmup = VInt 100, alpha_f = VFloat 0.1\<rparr>"]
    build_scheduler_recognized
      [of "\<lparr>name = ''cosine_with_warmup'', t_warmup = VInt 100, alpha_f = VFloat 0.1\<rparr>"]
    build_scheduler_recognized
      [of "\<lparr>name = ''linear_decay_with_warmup'', t_warmup = VStr ''2ba'', alpha_f = VFloat 0\<rparr>"]
  by simp

text \<open>
  Claim C2. For a recognized algorithm name \<open>build_algorithm\<close> returns the algorithm
  that the name stands for, built from the keyword map as it was given, and the four
  names are the only ones for which it returns an algorithm.
\<close>

theorem build_algorithm_recognized:
  "(nm = ''gradient_clipping'' \<longrightarrow> build_algorithm nm kw = Inr (GradientClipping kw)) \<and>
   (nm = ''fused_layernorm'' \<longrightarrow> build_algorithm nm kw = Inr (FusedLayerNorm kw)) \<and>
   (nm = ''gated_linear_units'' \<longrightarrow> build_algorithm nm kw = Inr (GatedLinearUnits kw)) \<and>
   (nm = ''low_precision_layernorm'' \<longrightarrow> build_algorithm nm kw = Inr (LowPrecisionLayerNorm kw)) \<and>
   ((\<exists>a. build_algorithm nm kw = Inr a) \<longleftrightarrow>
      nm \<in> {''gradient_clipping'', ''fused_layernorm'', ''gated_linear_units'',
            ''low_precision_layernorm''})"
  by (simp add: build_algorithm_def)

theorem build_algorithm_recognized_witness:
  "build_algorithm ''gradient_clipping'' [(''clipping_type'', VStr ''norm''), (''clipping_threshold'', VFloat 1)]
     = Inr (GradientClipping [(''clipping_type'', VStr ''norm''), (''clipping_threshold'', VFloat 1)]) \<and>
   build_algorithm ''fused_layernorm'' [] = Inr (FusedLayerNorm []) \<and>
   build_algorithm ''gated_linear_units'' [] = Inr (GatedLinearUnits []) \<and>
   build_algorithm ''low_precision_layernorm'' [] = Inr (LowPrecisionLayerNorm []) \<and>
   (\<nexists>a. build_algorithm ''alibi'' [] = Inr a)"
  using
    build_algorithm_recognized
      [of "''gradient_clipping''" "[(''clipping_type'', VStr ''norm''), (''clipping_threshold'', VFloat 1)]"]
    build_algorithm_recognized [of "''fused_layernorm''" "[]"]
    build_algorithm_recognized [of "''gated_linear_units''" "[]"]
    build_algorithm_recognized [of "''low_precision_layernorm''" "[]"]
    build_algorithm_recognized [of "''alibi''" "[]"]
  by simp

text \<open>
  Claim C3. An algorithm name outside the four recognized ones makes
  \<open>build_algorithm\<close> raise. The exception is a \<open>ValueError\<close>, where
  \<open>build_scheduler\<close> raises a \<open>DolmaConfigurationError\<close> for a name it does not
  know: the two dispatchers are evaluated here at the same unknown name.
\<close>

theorem build_algorithm_alibi_ValueError:
  "build_algorithm ''alibi'' [] = Inl (ValueError ''Not sure how to build algorithm: alibi'') \<and>
   build_scheduler \<lparr>name = ''alibi'', t_warmup = VInt 100, alpha_f = VFloat 0.1\<rparr>
     = Inl (DolmaConfigurationError ''Not sure how to build scheduler: alibi'')"
  by (simp add: build_algorithm_def build_scheduler_def)

text \<open>
  Claim C4. \<open>build_scheduler\<close> raises exactly for the names that are none of
  \<^verbatim>\<open>constant_with_warmup\<close>, \<^verbatim>\<open>cosine_with_warmup\<close> and
  \<^verbatim>\<open>linear_decay_with_warmup\<close>, and what it raises then is a
  \<open>DolmaConfigurationError\<close> whose message ends with the name it was given.
\<close>

theorem build_scheduler_unrecognized:
  "((\<exists>e. build_scheduler cfg = Inl e) \<longleftrightarrow>
      name cfg \<notin> {''constant_with_warmup'', ''cosine_with_warmup'', ''linear_decay_with_warmup''}) \<and>
   (name cfg \<notin> {''constant_with_warmup'', ''cosine_with_warmup'', ''linear_decay_with_warmup''} \<longrightarrow>
      build_scheduler cfg =
        Inl (DolmaConfigurationError (''Not sure how to build scheduler: '' @ name cfg)))"
  by (simp add: build_scheduler_def)

theorem build_scheduler_unrecognized_witness:
  "build_scheduler \<lparr>name = ''inverse_sqrt'', t_warmup = VInt 100, alpha_f = VFloat 0.1\<rparr>
     = Inl (DolmaConfigurationError ''Not sure how to build scheduler: inverse_sqrt'') \<and>
   (\<nexists>e. build_scheduler \<lparr>name = ''cosine_with_warmup'', t_warmup = VInt 100, alpha_f = VFloat 0.1\<rparr>
           = Inl e)"
  using
    build_scheduler_unrecognized
      [of "\<lparr>name = ''inverse_sqrt'', t_warmup = VInt 100, alpha_f = VFloat 0.1\<rparr>"]
    build_scheduler_unrecognized
      [of "\<lparr>name = ''cosine_with_warmup'', t_warmup = VInt 100, alpha_f = VFloat 0.1\<rparr>"]
  by simp

section \<open>Properties of \<^verbatim>\<open>main\<close>\<close>

subsection \<open>The shape of a run\<close>

lemma update_batch_size_info_frame:
  "run_name (update_batch_size_info w c) = run_name c"
  "dry_run (update_batch_size_info w c) = dry_run c"
  "scheduler (update_batch_size_info w c) = scheduler c"
  "algorithms (update_batch_size_info w c) = algorithms c"
  by (simp_all add: update_batch_size_info_def split: prod.splits)

lemma algorithm_items_frame:
  "algorithm_items (update_batch_size_info w c) = algorithm_items c"
  "algorithm_items (c\<lparr>run_name := r\<rparr>) = algorithm_items c"
  by (simp_all add: algorithm_items_def update_batch_size_info_frame)

lemma main_returns_iff:
  "raised (main w cfg) = None \<longleftrightarrow>
     isinstance_int (device_train_batch_size (update_batch_size_info w
        (if run_name cfg = None
         then cfg\<lparr>run_name := Some (environ_get w ''COMPOSER_RUN_NAME'' ''llm'')\<rparr> else cfg))) \<and>
     (\<exists>s. build_scheduler (scheduler cfg) = Inr s) \<and>
     (\<exists>algs. build_algorithms (algorithm_items cfg) = Inr algs)"
  by (cases "run_name cfg")
     (simp_all add: main_def Let_def update_batch_size_info_frame algorithm_items_frame
      split: sum.splits)

lemma main_fit_count:
  "count_list (events (main w cfg)) TrainerFit =
     (if raised (main w cfg) = None \<and> \<not> dry_run cfg then 1 else 0)"
  by (cases "run_name cfg")
     (simp_all add: main_def train_def Let_def update_batch_size_info_frame split: sum.splits)

lemma main_close_count:
  "count_list (events (main w cfg)) TrainerClose = (if raised (main w cfg) = None then 1 else 0)"
  by (cases "run_name cfg")
     (simp_all add: main_def train_def Let_def update_batch_size_info_frame split: sum.splits)

lemma main_success:
  "EchoSuccess s \<in> set (events (main w cfg)) \<longleftrightarrow>
     raised (main w cfg) = None \<and>
     s = (if dry_run cfg then ''Dry run complete'' else ''Training complete'')"
  by (cases "run_name cfg")
     (simp_all add: main_def train_def Let_def update_batch_size_info_frame split: sum.splits)

lemma main_last:
  "raised (main w cfg) = None \<Longrightarrow>
     last (events (main w cfg)) =
       EchoSuccess (if dry_run cfg then ''Dry run complete'' else ''Training complete'')"
  by (cases "run_name cfg")
     (simp_all add: main_def train_def Let_def update_batch_size_info_frame
      split: sum.splits if_splits)

lemma main_from_fit:
  "raised (main w cfg) = None \<Longrightarrow> \<not> dry_run cfg \<Longrightarrow>
     dropWhile (\<lambda>e. e \<noteq> TrainerFit) (events (main w cfg)) =
       [TrainerFit, TrainerClose, EchoSuccess ''Training complete'']"
  by (cases "run_name cfg")
     (simp_all add: main_def train_def Let_def update_batch_size_info_frame
      split: sum.splits if_splits)

lemma main_TrainerInit:
  "TrainerInit a \<in> set (events (main w cfg)) \<Longrightarrow>
     arg_run_name a = run_name (cfg_out (main w cfg)) \<and>
     build_algorithms (algorithm_items cfg) = Inr (arg_algorithms a) \<and>
     build_scheduler (scheduler cfg) = Inr (arg_schedulers a)"
  by (cases "run_name cfg")
     (simp_all add: main_def train_def trainer_kwargs_def Let_def update_batch_size_info_frame
      algorithm_items_frame split: sum.splits if_splits)

lemma main_trainer_built:
  "(\<exists>a. TrainerInit a \<in> set (events (main w cfg))) \<longleftrightarrow> raised (main w cfg) = None"
  by (cases "run_name cfg")
     (auto simp add: main_def train_def Let_def split: sum.splits if_splits)

lemma main_cfg_out_run_name:
  "run_name (cfg_out (main w cfg)) =
     (if run_name cfg = None then Some (environ_get w ''COMPOSER_RUN_NAME'' ''llm'')
      else run_name cfg)"
  by (cases "run_name cfg")
     (simp_all add: main_def Let_def update_batch_size_info_frame split: sum.splits)

lemma main_EnvironGet:
  "EnvironGet k \<in> set (events (main w cfg)) \<longleftrightarrow> run_name cfg = None \<and> k = ''COMPOSER_RUN_NAME''"
  by (cases "run_name cfg")
     (auto simp add: main_def train_def Let_def split: sum.splits if_splits)

lemma main_UpdateBatchSizeInfo:
  "UpdateBatchSizeInfo c \<in> set (events (main w cfg)) \<longleftrightarrow>
     c = (if run_name cfg = None
          then cfg\<lparr>run_name := Some (environ_get w ''COMPOSER_RUN_NAME'' ''llm'')\<rparr> else cfg)"
  by (cases "run_name cfg")
     (auto simp add: main_def train_def Let_def split: sum.splits if_splits)

lemma update_batch_size_info_environ:
  "update_batch_size_info (w\<lparr>environ := env\<rparr>) c = update_batch_size_info w c"
  by (simp add: update_batch_size_info_def)

lemma train_environ:
  "train (w\<lparr>environ := env\<rparr>) c mdl dl opt sched algs = train w c mdl dl opt sched algs"
  by (simp add: train_def)

lemma main_environ_irrelevant:
  "run_name cfg \<noteq> None \<Longrightarrow> main (w\<lparr>environ := env\<rparr>) cfg = main w cfg"
  by (cases "run_name cfg")
     (simp_all add: main_def Let_def update_batch_size_info_environ train_environ
      split: sum.splits)

subsection \<open>What \<^verbatim>\<open>main\<close> can raise\<close>

lemma build_algorithm_raises_ValueError:
  "build_algorithm nm kw = Inl e \<Longrightarrow> \<exists>m. e = ValueError m"
  by (auto simp add: build_algorithm_def split: if_splits)

lemma build_algorithms_raises_ValueError:
  "build_algorithms xs = Inl e \<Longrightarrow> \<exists>m. e = ValueError m"
proof (induction xs)
  case Nil
  then show ?case by simp
next
  case (Cons x xs)
  obtain nm kw where x: "x = (nm, kw)" by (cases x)
  from Cons show ?case
    unfolding x by (auto split: sum.splits dest: build_algorithm_raises_ValueError)
qed

lemma build_algorithms_Inr_iff:
  "build_algorithms xs = Inr algs \<longleftrightarrow>
     list_all2 (\<lambda>(nm, kw) a. build_algorithm nm kw = Inr a) xs algs"
proof (induction xs arbitrary: algs)
  case Nil
  then show ?case by auto
next
  case (Cons x xs)
  obtain nm kw where x: "x = (nm, kw)" by (cases x)
  have step: "build_algorithms ((nm, kw) # xs) = Inr algs \<longleftrightarrow>
      (\<exists>a others. build_algorithm nm kw = Inr a \<and> build_algorithms xs = Inr others \<and>
         algs = a # others)"
    by (auto split: sum.splits)
  show ?case
    unfolding x step by (auto simp add: list_all2_Cons1 Cons.IH)
qed

lemma build_algorithms_all_built:
  "(\<forall>(nm, kw) \<in> set xs. \<exists>alg. build_algorithm nm kw = Inr alg) \<Longrightarrow>
     \<exists>algs. build_algorithms xs = Inr algs"
proof (induction xs)
  case Nil
  then show ?case by simp
next
  case (Cons x xs)
  obtain nm kw where x: "x = (nm, kw)" by (cases x)
  from Cons show ?case
    unfolding x by (auto split: sum.splits)
qed

lemma build_algorithms_one_fails:
  "(nm, kw) \<in> set xs \<Longrightarrow> build_algorithm nm kw = Inl e \<Longrightarrow> \<exists>e'. build_algorithms xs = Inl e'"
proof (induction xs)
  case Nil
  then show ?case by simp
next
  case (Cons x xs)
  obtain n k where x: "x = (n, k)" by (cases x)
  from Cons show ?case
    unfolding x by (auto split: sum.splits)
qed

lemma build_scheduler_raises_configuration_error:
  "build_scheduler c = Inl e \<Longrightarrow> \<exists>m. e = DolmaConfigurationError m"
  by (auto simp add: build_scheduler_def split: if_splits)

lemma main_raised_kinds:
  "raised (main w cfg) = Some e \<Longrightarrow>
     e = AssertionError \<or> (\<exists>m. e = DolmaConfigurationError m) \<or> (\<exists>m. e = ValueError m)"
  by (cases "run_name cfg")
     (auto simp add: main_def Let_def split: sum.splits if_splits
      dest: build_scheduler_raises_configuration_error build_algorithms_raises_ValueError)

lemma main_ValueError_from_algorithms:
  "raised (main w cfg) = Some (ValueError m) \<Longrightarrow>
     build_algorithms (algorithm_items cfg) = Inl (ValueError m)"
  by (cases "run_name cfg")
     (auto simp add: main_def Let_def update_batch_size_info_frame algorithm_items_frame
      split: sum.splits if_splits
      dest: build_scheduler_raises_configuration_error)


lemma main_raised_at_scheduler:
  "isinstance_int (device_train_batch_size (update_batch_size_info w
      (if run_name cfg = None
       then cfg\<lparr>run_name := Some (environ_get w ''COMPOSER_RUN_NAME'' ''llm'')\<rparr> else cfg))) \<Longrightarrow>
   build_scheduler (scheduler cfg) = Inl e \<Longrightarrow>
   raised (main w cfg) = Some e"
  by (cases "run_name cfg")
     (simp_all add: main_def Let_def update_batch_size_info_frame)

lemma main_raised_at_algorithms:
  "isinstance_int (device_train_batch_size (update_batch_size_info w
      (if run_name cfg = None
       then cfg\<lparr>run_name := Some (environ_get w ''COMPOSER_RUN_NAME'' ''llm'')\<rparr> else cfg))) \<Longrightarrow>
   build_scheduler (scheduler cfg) = Inr sched \<Longrightarrow>
   raised (main w cfg) =
     (case build_algorithms (algorithm_items cfg) of Inl e \<Rightarrow> Some e | Inr algs \<Rightarrow> None)"
  by (cases "run_name cfg")
     (simp_all add: main_def Let_def update_batch_size_info_frame algorithm_items_frame
      split: sum.splits)

section \<open>Runs of \<^verbatim>\<open>main\<close>\<close>

subsection \<open>The sample configuration\<close>

lemma sample_batch:
  "device_train_batch_size (update_batch_size_info sample_externals c) = VInt 64"
  by (simp add: update_batch_size_info_def sample_externals_def)

lemma sample_batch_ok:
  "isinstance_int (device_train_batch_size (update_batch_size_info sample_externals c))"
  by (simp add: sample_batch)

lemma sample_scheduler_builds:
  "build_scheduler (scheduler sample_cfg) =
     Inr (CosineAnnealingWithWarmupScheduler (VInt 100) (VFloat 0.1))"
  by (simp add: sample_cfg_def sample_scheduler_def build_scheduler_def)

lemma sample_algorithms_build:
  "build_algorithms (algorithm_items sample_cfg) =
     Inr [GradientClipping [(''clipping_threshold'', VFloat 1)], FusedLayerNorm []]"
  by (simp add: sample_cfg_def algorithm_items_def build_algorithm_def)

lemma algorithm_items_dry_run:
  "algorithm_items (c\<lparr>dry_run := b\<rparr>) = algorithm_items c"
  by (simp add: algorithm_items_def)

lemma sample_run_returns: "raised (main sample_externals sample_cfg) = None"
  unfolding main_returns_iff
  by (simp add: sample_batch sample_scheduler_builds sample_algorithms_build)

lemma sample_dry_run_returns:
  "raised (main sample_externals (sample_cfg\<lparr>dry_run := True\<rparr>)) = None"
  unfolding main_returns_iff
  by (simp add: sample_batch sample_scheduler_builds sample_algorithms_build
      algorithm_items_dry_run)

lemma sample_load:
  "TrainConfig_load sample_externals path overrides = sample_cfg"
  "clean_opt sample_externals s = s"
  by (simp_all add: sample_externals_def)


subsection \<open>The trainer's calls\<close>

text \<open>
  Claim C6, on a dry run. With \<^verbatim>\<open>dry_run\<close> set the run returns and closes the
  trainer once, but \<^verbatim>\<open>fit\<close> is not called at all: \<^verbatim>\<open>main\<close> guards
  the call with \<^verbatim>\<open>if not cfg.dry_run\<close>.
\<close>

theorem main_dry_run_skips_fit:
  "raised (main sample_externals (sample_cfg\<lparr>dry_run := True\<rparr>)) = None \<and>
   count_list (events (main sample_externals (sample_cfg\<lparr>dry_run := True\<rparr>))) TrainerFit = 0 \<and>
   count_list (events (main sample_externals (sample_cfg\<lparr>dry_run := True\<rparr>))) TrainerClose = 1"
  by (simp add: sample_dry_run_returns main_fit_count main_close_count)

text \<open>
  Claim C6, for the runs it holds of. In a run of \<^verbatim>\<open>main\<close> that returns and
  whose configuration has \<^verbatim>\<open>dry_run\<close> unset, \<^verbatim>\<open>fit\<close> is called exactly
  once and \<^verbatim>\<open>close\<close> exactly once, and the run ends with \<^verbatim>\<open>fit\<close>,
  then \<^verbatim>\<open>close\<close>, then the report of success. In a run whose configuration has
  \<^verbatim>\<open>dry_run\<close> set, \<^verbatim>\<open>fit\<close> is not called, whether the run returns
  or not.
\<close>

theorem main_fit_once_before_close:
  "(raised (main w cfg) = None \<and> \<not> dry_run cfg \<longrightarrow>
      count_list (events (main w cfg)) TrainerFit = 1 \<and>
      count_list (events (main w cfg)) TrainerClose = 1 \<and>
      (\<exists>pre. events (main w cfg) =
               pre @ [TrainerFit, TrainerClose, EchoSuccess ''Training complete''])) \<and>
   (dry_run cfg \<longrightarrow> TrainerFit \<notin> set (events (main w cfg)))"
proof (intro conjI impI)
  assume a: "raised (main w cfg) = None \<and> \<not> dry_run cfg"
  let ?es = "events (main w cfg)"
  let ?P = "\<lambda>e. e \<noteq> TrainerFit"
  from a have r: "raised (main w cfg) = None" and n: "\<not> dry_run cfg"
    by simp_all
  have d: "dropWhile ?P ?es = [TrainerFit, TrainerClose, EchoSuccess ''Training complete'']"
    by (rule main_from_fit [OF r n])
  have "takeWhile ?P ?es @ dropWhile ?P ?es = ?es"
    by (rule takeWhile_dropWhile_id)
  then have t: "?es = takeWhile ?P ?es @ [TrainerFit, TrainerClose, EchoSuccess ''Training complete'']"
    unfolding d by (rule sym)
  show "\<exists>pre. ?es = pre @ [TrainerFit, TrainerClose, EchoSuccess ''Training complete'']"
  proof (rule exI)
    show "?es = takeWhile ?P ?es @ [TrainerFit, TrainerClose, EchoSuccess ''Training complete'']"
      by (rule t)
  qed
  show "count_list ?es TrainerFit = 1"
    using r n by (simp add: main_fit_count)
  show "count_list ?es TrainerClose = 1"
    using r by (simp add: main_close_count)
next
  assume "dry_run cfg"
  then have "count_list (events (main w cfg)) TrainerFit = 0"
    by (simp add: main_fit_count)
  then show "TrainerFit \<notin> set (events (main w cfg))"
    by (simp add: count_list_0_iff)
qed

theorem main_fit_once_before_close_witness:
  "raised (main sample_externals sample_cfg) = None \<and> \<not> dry_run sample_cfg \<and>
   count_list (events (main sample_externals sample_cfg)) TrainerFit = 1 \<and>
   count_list (events (main sample_externals sample_cfg)) TrainerClose = 1 \<and>
   (\<exists>pre. events (main sample_externals sample_cfg) =
            pre @ [TrainerFit, TrainerClose, EchoSuccess ''Training complete'']) \<and>
   dry_run (sample_cfg\<lparr>dry_run := True\<rparr>) \<and>
   TrainerFit \<notin> set (events (main sample_externals (sample_cfg\<lparr>dry_run := True\<rparr>)))"
proof -
  have h1: "\<not> dry_run sample_cfg" by (simp add: sample_cfg_def)
  have h2: "raised (main sample_externals sample_cfg) = None" by (rule sample_run_returns)
  have h3: "dry_run (sample_cfg\<lparr>dry_run := True\<rparr>)" by simp
  note r = main_fit_once_before_close [of sample_externals sample_cfg]
  note s = main_fit_once_before_close [of sample_externals "sample_cfg\<lparr>dry_run := True\<rparr>"]
  from r h1 h2 have f: "count_list (events (main sample_externals sample_cfg)) TrainerFit = 1"
    by blast
  from r h1 h2 have c: "count_list (events (main sample_externals sample_cfg)) TrainerClose = 1"
    by blast
  from r h1 h2 have e: "\<exists>pre. events (main sample_externals sample_cfg) =
            pre @ [TrainerFit, TrainerClose, EchoSuccess ''Training complete'']"
    by blast
  from s h3 have g: "TrainerFit \<notin> set (events (main sample_externals (sample_cfg\<lparr>dry_run := True\<rparr>)))"
    by blast
  from h2 h1 f c e h3 g show ?thesis by (intro conjI)
qed

subsection \<open>Dry runs\<close>

lemma sample_bad_scheduler_raises:
  "raised (main sample_externals
     (sample_cfg\<lparr>dry_run := True, scheduler := sample_scheduler\<lparr>name := ''inverse_sqrt''\<rparr>\<rparr>)) \<noteq> None"
  unfolding main_returns_iff
  by (simp add: build_scheduler_def)


text \<open>
  Claim C8, at a configuration that \<^verbatim>\<open>main\<close> rejects. With
  \<^verbatim>\<open>dry_run\<close> set and a scheduler name that \<open>build_scheduler\<close> does not know,
  \<^verbatim>\<open>main\<close> raises before the trainer exists: \<^verbatim>\<open>close\<close> is not called
  and no success is reported.
\<close>

theorem main_dry_run_bad_scheduler:
  "dry_run (sample_cfg\<lparr>dry_run := True, scheduler := sample_scheduler\<lparr>name := ''inverse_sqrt''\<rparr>\<rparr>) \<and>
   build_scheduler (scheduler
     (sample_cfg\<lparr>dry_run := True, scheduler := sample_scheduler\<lparr>name := ''inverse_sqrt''\<rparr>\<rparr>))
     = Inl (DolmaConfigurationError ''Not sure how to build scheduler: inverse_sqrt'') \<and>
   count_list (events (main sample_externals
     (sample_cfg\<lparr>dry_run := True, scheduler := sample_scheduler\<lparr>name := ''inverse_sqrt''\<rparr>\<rparr>)))
     TrainerClose = 0 \<and>
   EchoSuccess ''Dry run complete'' \<notin> set (events (main sample_externals
     (sample_cfg\<lparr>dry_run := True, scheduler := sample_scheduler\<lparr>name := ''inverse_sqrt''\<rparr>\<rparr>)))"
  using sample_bad_scheduler_raises
  by (simp add: main_close_count main_success build_scheduler_def)

text \<open>
  Claim C8, for the runs it holds of. With \<^verbatim>\<open>dry_run\<close> set,
  \<^verbatim>\<open>fit\<close> is never called, whatever else happens; and when \<^verbatim>\<open>main\<close>
  returns, \<^verbatim>\<open>close\<close> has been called exactly once and the run ends by reporting
  \<^verbatim>\<open>Dry run complete\<close>, never \<^verbatim>\<open>Training complete\<close>.
\<close>

theorem main_dry_run:
  assumes "dry_run cfg"
  shows "TrainerFit \<notin> set (events (main w cfg)) \<and>
         (raised (main w cfg) = None \<longrightarrow>
            count_list (events (main w cfg)) TrainerClose = 1 \<and>
            last (events (main w cfg)) = EchoSuccess ''Dry run complete'' \<and>
            EchoSuccess ''Training complete'' \<notin> set (events (main w cfg)))"
proof -
  have "count_list (events (main w cfg)) TrainerFit = 0"
    using assms by (simp add: main_fit_count)
  then have nofit: "TrainerFit \<notin> set (events (main w cfg))"
    by (simp add: count_list_0_iff)
  have close: "raised (main w cfg) = None \<Longrightarrow> count_list (events (main w cfg)) TrainerClose = 1"
    by (simp add: main_close_count)
  have lst: "raised (main w cfg) = None \<Longrightarrow>
      last (events (main w cfg)) = EchoSuccess ''Dry run complete''"
    using assms by (simp add: main_last)
  have notrain: "EchoSuccess ''Training complete'' \<notin> set (events (main w cfg))"
    using assms by (simp add: main_success)
  from nofit close lst notrain show ?thesis by blast
qed

theorem main_dry_run_witness:
  "dry_run (sample_cfg\<lparr>dry_run := True\<rparr>) \<and>
   raised (main sample_externals (sample_cfg\<lparr>dry_run := True\<rparr>)) = None \<and>
   TrainerFit \<notin> set (events (main sample_externals (sample_cfg\<lparr>dry_run := True\<rparr>))) \<and>
   count_list (events (main sample_externals (sample_cfg\<lparr>dry_run := True\<rparr>))) TrainerClose = 1 \<and>
   last (events (main sample_externals (sample_cfg\<lparr>dry_run := True\<rparr>)))
     = EchoSuccess ''Dry run complete'' \<and>
   EchoSuccess ''Training complete'' \<notin>
     set (events (main sample_externals (sample_cfg\<lparr>dry_run := True\<rparr>)))"
proof -
  have h: "dry_run (sample_cfg\<lparr>dry_run := True\<rparr>)" by simp
  note r = main_dry_run [OF h, of sample_externals]
  from h sample_dry_run_returns r show ?thesis by blast
qed

subsection \<open>The run name\<close>

text \<open>
  Claim C7. When the configuration has no run name, \<^verbatim>\<open>main\<close> looks up
  \<^verbatim>\<open>COMPOSER_RUN_NAME\<close> in the environment and sets the run name to its value, or
  to \<^verbatim>\<open>llm\<close> when the variable is not set. That name is in the configuration when
  \<^verbatim>\<open>main\<close> ends, it is in the configuration handed to
  \<^verbatim>\<open>update_batch_size_info\<close> right after, and it is the run name of the trainer
  whenever a trainer is built.
\<close>

theorem main_defaults_run_name:
  assumes "run_name cfg = None"
  shows "run_name (cfg_out (main w cfg)) =
           Some (case environ w ''COMPOSER_RUN_NAME'' of Some v \<Rightarrow> v | None \<Rightarrow> ''llm'') \<and>
         EnvironGet ''COMPOSER_RUN_NAME'' \<in> set (events (main w cfg)) \<and>
         UpdateBatchSizeInfo
           (cfg\<lparr>run_name :=
              Some (case environ w ''COMPOSER_RUN_NAME'' of Some v \<Rightarrow> v | None \<Rightarrow> ''llm'')\<rparr>)
           \<in> set (events (main w cfg)) \<and>
         (\<forall>a. TrainerInit a \<in> set (events (main w cfg)) \<longrightarrow>
            arg_run_name a =
              Some (case environ w ''COMPOSER_RUN_NAME'' of Some v \<Rightarrow> v | None \<Rightarrow> ''llm''))"
proof -
  let ?n = "case environ w ''COMPOSER_RUN_NAME'' of Some v \<Rightarrow> v | None \<Rightarrow> ''llm''"
  have out: "run_name (cfg_out (main w cfg)) = Some ?n"
    using assms by (simp add: main_cfg_out_run_name environ_get_def)
  have env: "EnvironGet ''COMPOSER_RUN_NAME'' \<in> set (events (main w cfg))"
    using assms by (simp add: main_EnvironGet)
  have upd: "UpdateBatchSizeInfo (cfg\<lparr>run_name := Some ?n\<rparr>) \<in> set (events (main w cfg))"
    using assms by (simp add: main_UpdateBatchSizeInfo environ_get_def)
  have tr: "arg_run_name a = Some ?n" if "TrainerInit a \<in> set (events (main w cfg))" for a
    using main_TrainerInit [OF that] out by simp
  from out env upd tr show ?thesis by blast
qed

theorem main_defaults_run_name_witness:
  "run_name sample_cfg = None \<and>
   run_name (cfg_out (main sample_externals sample_cfg)) = Some ''llm'' \<and>
   run_name (cfg_out (main (sample_externals\<lparr>environ := [''COMPOSER_RUN_NAME'' \<mapsto> ''run-7'']\<rparr>)
     sample_cfg)) = Some ''run-7''"
proof -
  have h: "run_name sample_cfg = None" by (simp add: sample_cfg_def)
  have a: "run_name (cfg_out (main sample_externals sample_cfg)) = Some ''llm''"
    using main_defaults_run_name [OF h, of sample_externals]
    by (simp add: sample_externals_def)
  have b: "run_name (cfg_out (main (sample_externals\<lparr>environ := [''COMPOSER_RUN_NAME'' \<mapsto> ''run-7'']\<rparr>)
     sample_cfg)) = Some ''run-7''"
    using main_defaults_run_name
      [OF h, of "sample_externals\<lparr>environ := [''COMPOSER_RUN_NAME'' \<mapsto> ''run-7'']\<rparr>"]
    by simp
  from h a b show ?thesis by (intro conjI)
qed

text \<open>
  Claim C10. When the configuration has a run name, \<^verbatim>\<open>main\<close> keeps it: the
  configuration ends with the same run name, the environment is not read (no lookup is
  made, and the run is the same under any other environment), the configuration goes to
  \<^verbatim>\<open>update_batch_size_info\<close> as it came in, and a trainer, when built, gets that
  run name.
\<close>

theorem main_keeps_run_name:
  assumes "run_name cfg \<noteq> None"
  shows "run_name (cfg_out (main w cfg)) = run_name cfg \<and>
         (\<forall>key. EnvironGet key \<notin> set (events (main w cfg))) \<and>
         main (w\<lparr>environ := env\<rparr>) cfg = main w cfg \<and>
         UpdateBatchSizeInfo cfg \<in> set (events (main w cfg)) \<and>
         (\<forall>a. TrainerInit a \<in> set (events (main w cfg)) \<longrightarrow> arg_run_name a = run_name cfg)"
proof -
  have out: "run_name (cfg_out (main w cfg)) = run_name cfg"
    using assms by (simp add: main_cfg_out_run_name)
  have env: "EnvironGet key \<notin> set (events (main w cfg))" for key
    using assms by (simp add: main_EnvironGet)
  have indep: "main (w\<lparr>environ := env\<rparr>) cfg = main w cfg"
    using assms by (rule main_environ_irrelevant)
  have upd: "UpdateBatchSizeInfo cfg \<in> set (events (main w cfg))"
    using assms by (simp add: main_UpdateBatchSizeInfo)
  have tr: "arg_run_name a = run_name cfg" if "TrainerInit a \<in> set (events (main w cfg))" for a
    using main_TrainerInit [OF that] out by simp
  from out env indep upd tr show ?thesis by blast
qed

theorem main_keeps_run_name_witness:
  "run_name (sample_cfg\<lparr>run_name := Some ''olmo-small''\<rparr>) \<noteq> None \<and>
   run_name (cfg_out (main (sample_externals\<lparr>environ := [''COMPOSER_RUN_NAME'' \<mapsto> ''run-7'']\<rparr>)
     (sample_cfg\<lparr>run_name := Some ''olmo-small''\<rparr>))) = Some ''olmo-small'' \<and>
   (\<forall>key. EnvironGet key \<notin> set (events
      (main (sample_externals\<lparr>environ := [''COMPOSER_RUN_NAME'' \<mapsto> ''run-7'']\<rparr>)
     (sample_cfg\<lparr>run_name := Some ''olmo-small''\<rparr>))))"
proof -
  have h: "run_name (sample_cfg\<lparr>run_name := Some ''olmo-small''\<rparr>) \<noteq> None" by simp
  note r = main_keeps_run_name
    [OF h, of "sample_externals\<lparr>environ := [''COMPOSER_RUN_NAME'' \<mapsto> ''run-7'']\<rparr>"]
  from h r show ?thesis by simp
qed

subsection \<open>The algorithms\<close>

text \<open>
  Claim C9, at configurations that \<^verbatim>\<open>main\<close> rejects. With no algorithms and a
  scheduler name that \<open>build_scheduler\<close> does not know, \<^verbatim>\<open>main\<close> raises
  before it comes to the algorithms. With a map of algorithms that has an entry whose name
  \<open>build_algorithm\<close> does not know, no algorithm is built for that entry:
  \<^verbatim>\<open>main\<close> ends with the exception of \<open>build_algorithm\<close>.
\<close>

theorem main_algorithms_rejected:
  "algorithms (sample_cfg\<lparr>scheduler := sample_scheduler\<lparr>name := ''inverse_sqrt''\<rparr>,
                          algorithms := None\<rparr>) = None \<and>
   raised (main sample_externals
     (sample_cfg\<lparr>scheduler := sample_scheduler\<lparr>name := ''inverse_sqrt''\<rparr>, algorithms := None\<rparr>))
     = Some (DolmaConfigurationError ''Not sure how to build scheduler: inverse_sqrt'') \<and>
   algorithms (sample_cfg\<lparr>algorithms := Some [(''alibi'', [])]\<rparr>) = Some [(''alibi'', [])] \<and>
   raised (main sample_externals (sample_cfg\<lparr>algorithms := Some [(''alibi'', [])]\<rparr>))
     = Some (ValueError ''Not sure how to build algorithm: alibi'')"
proof -
  have a: "raised (main sample_externals
     (sample_cfg\<lparr>scheduler := sample_scheduler\<lparr>name := ''inverse_sqrt''\<rparr>, algorithms := None\<rparr>))
     = Some (DolmaConfigurationError ''Not sure how to build scheduler: inverse_sqrt'')"
    by (rule main_raised_at_scheduler [OF sample_batch_ok])
       (simp add: build_scheduler_def sample_scheduler_def)
  have s: "build_scheduler (scheduler (sample_cfg\<lparr>algorithms := Some [(''alibi'', [])]\<rparr>)) =
      Inr (CosineAnnealingWithWarmupScheduler (VInt 100) (VFloat 0.1))"
    by (simp add: sample_scheduler_builds)
  have b: "raised (main sample_externals (sample_cfg\<lparr>algorithms := Some [(''alibi'', [])]\<rparr>))
     = Some (ValueError ''Not sure how to build algorithm: alibi'')"
    unfolding main_raised_at_algorithms [OF sample_batch_ok s]
    by (simp add: algorithm_items_def build_algorithm_def)
  from a b show ?thesis by simp
qed

text \<open>
  Claim C9, for the runs it holds of. Take a run of \<^verbatim>\<open>main\<close> that gets as far
  as the list of algorithms: the batch size per device is an integer and the scheduler's
  name is recognized.
  \<^item> When the configuration has no algorithms, \<^verbatim>\<open>main\<close> raises nothing: it
    returns, it builds the trainer, and the trainer's list of algorithms is empty.
  \<^item> When the configuration has a map of algorithms and \<open>build_algorithm\<close> returns
    an algorithm for every entry, \<^verbatim>\<open>main\<close> returns and builds the trainer
    with a list that has one algorithm for each entry, in the order of the entries, each
    the result of \<open>build_algorithm\<close> on the entry's name and keyword map.
  \<^item> When \<open>build_algorithm\<close> raises for some entry of the map,
    \<^verbatim>\<open>main\<close> ends with the exception that the list comprehension ends with,
    and builds no trainer.
\<close>

theorem main_builds_algorithms:
  assumes batch: "isinstance_int (device_train_batch_size (update_batch_size_info w
            (if run_name cfg = None
             then cfg\<lparr>run_name := Some (environ_get w ''COMPOSER_RUN_NAME'' ''llm'')\<rparr>
             else cfg)))"
      and sched: "build_scheduler (scheduler cfg) = Inr sched"
  shows "(algorithms cfg = None \<longrightarrow>
            raised (main w cfg) = None \<and>
            (\<exists>a. TrainerInit a \<in> set (events (main w cfg))) \<and>
            (\<forall>a. TrainerInit a \<in> set (events (main w cfg)) \<longrightarrow> arg_algorithms a = [])) \<and>
         (\<forall>d. algorithms cfg = Some d \<and>
              (\<forall>(nm, algorithm_cfg) \<in> set d. \<exists>alg. build_algorithm nm algorithm_cfg = Inr alg) \<longrightarrow>
            raised (main w cfg) = None \<and>
            (\<exists>a. TrainerInit a \<in> set (events (main w cfg))) \<and>
            (\<forall>a. TrainerInit a \<in> set (events (main w cfg)) \<longrightarrow>
               list_all2 (\<lambda>(nm, algorithm_cfg) alg. build_algorithm nm algorithm_cfg = Inr alg)
                 d (arg_algorithms a))) \<and>
         (\<forall>d nm algorithm_cfg e. algorithms cfg = Some d \<and> (nm, algorithm_cfg) \<in> set d \<and>
              build_algorithm nm algorithm_cfg = Inl e \<longrightarrow>
            (\<exists>e'. build_algorithms d = Inl e' \<and> raised (main w cfg) = Some e') \<and>
            (\<forall>a. TrainerInit a \<notin> set (events (main w cfg))))"
proof -
  note at = main_raised_at_algorithms [OF batch sched]
  have none: "raised (main w cfg) = None \<and>
      (\<exists>a. TrainerInit a \<in> set (events (main w cfg))) \<and>
      (\<forall>a. TrainerInit a \<in> set (events (main w cfg)) \<longrightarrow> arg_algorithms a = [])"
    if n: "algorithms cfg = None"
  proof -
    from n have b: "build_algorithms (algorithm_items cfg) = Inr []"
      by (simp add: algorithm_items_def)
    from at b have r: "raised (main w cfg) = None" by simp
    from r have t: "\<exists>a. TrainerInit a \<in> set (events (main w cfg))"
      by (simp add: main_trainer_built)
    have "arg_algorithms a = []" if "TrainerInit a \<in> set (events (main w cfg))" for a
      using main_TrainerInit [OF that] b by simp
    with r t show ?thesis by blast
  qed
  have built: "raised (main w cfg) = None \<and>
      (\<exists>a. TrainerInit a \<in> set (events (main w cfg))) \<and>
      (\<forall>a. TrainerInit a \<in> set (events (main w cfg)) \<longrightarrow>
         list_all2 (\<lambda>(nm, algorithm_cfg) alg. build_algorithm nm algorithm_cfg = Inr alg)
           d (arg_algorithms a))"
    if s: "algorithms cfg = Some d"
      and all: "\<forall>(nm, algorithm_cfg) \<in> set d. \<exists>alg. build_algorithm nm algorithm_cfg = Inr alg"
    for d
  proof -
    from s have i: "algorithm_items cfg = d"
      by (simp add: algorithm_items_def)
    from build_algorithms_all_built [OF all] obtain algs where b: "build_algorithms d = Inr algs"
      by blast
    from at b i have r: "raised (main w cfg) = None" by simp
    from r have t: "\<exists>a. TrainerInit a \<in> set (events (main w cfg))"
      by (simp add: main_trainer_built)
    have "list_all2 (\<lambda>(nm, algorithm_cfg) alg. build_algorithm nm algorithm_cfg = Inr alg)
           d (arg_algorithms a)"
      if "TrainerInit a \<in> set (events (main w cfg))" for a
      using main_TrainerInit [OF that] i by (simp add: build_algorithms_Inr_iff)
    with r t show ?thesis by blast
  qed
  have fails: "(\<exists>e'. build_algorithms d = Inl e' \<and> raised (main w cfg) = Some e') \<and>
      (\<forall>a. TrainerInit a \<notin> set (events (main w cfg)))"
    if s: "algorithms cfg = Some d" and m: "(nm, algorithm_cfg) \<in> set d"
      and f: "build_algorithm nm algorithm_cfg = Inl e"
    for d nm algorithm_cfg e
  proof -
    from s have i: "algorithm_items cfg = d"
      by (simp add: algorithm_items_def)
    from build_algorithms_one_fails [OF m f] obtain e' where b: "build_algorithms d = Inl e'"
      by blast
    from at b i have r: "raised (main w cfg) = Some e'" by simp
    then have "\<not> (\<exists>a. TrainerInit a \<in> set (events (main w cfg)))"
      by (simp add: main_trainer_built)
    then have "\<forall>a. TrainerInit a \<notin> set (events (main w cfg))"
      by simp
    with b r show ?thesis by blast
  qed
  from none built fails show ?thesis by blast
qed

theorem main_builds_algorithms_witness:
  "algorithms (sample_cfg\<lparr>algorithms := None\<rparr>) = None \<and>
   raised (main sample_externals (sample_cfg\<lparr>algorithms := None\<rparr>)) = None \<and>
   (\<exists>a. TrainerInit a \<in> set (events (main sample_externals (sample_cfg\<lparr>algorithms := None\<rparr>))) \<and>
        arg_algorithms a = []) \<and>
   algorithms sample_cfg =
     Some [(''gradient_clipping'', [(''clipping_threshold'', VFloat 1)]), (''fused_layernorm'', [])] \<and>
   raised (main sample_externals sample_cfg) = None \<and>
   (\<exists>a. TrainerInit a \<in> set (events (main sample_externals sample_cfg)) \<and>
        arg_algorithms a =
          [GradientClipping [(''clipping_threshold'', VFloat 1)], FusedLayerNorm []])"
proof -
  let ?d = "[(''gradient_clipping'', [(''clipping_threshold'', VFloat 1)]), (''fused_layernorm'', [])]"
  have h0: "algorithms (sample_cfg\<lparr>algorithms := None\<rparr>) = None" by simp
  have h1: "algorithms sample_cfg = Some ?d"
    by (simp add: sample_cfg_def)
  have s0: "build_scheduler (scheduler (sample_cfg\<lparr>algorithms := None\<rparr>)) =
      Inr (CosineAnnealingWithWarmupScheduler (VInt 100) (VFloat 0.1))"
    by (simp add: sample_scheduler_builds)
  have ok: "\<forall>(nm, algorithm_cfg) \<in> set ?d. \<exists>alg. build_algorithm nm algorithm_cfg = Inr alg"
    by (simp add: build_algorithm_def)
  note n = main_builds_algorithms [OF sample_batch_ok s0]
  note m = main_builds_algorithms [OF sample_batch_ok sample_scheduler_builds]
  from n h0 have a: "raised (main sample_externals (sample_cfg\<lparr>algorithms := None\<rparr>)) = None"
    by blast
  from n h0 have b: "\<exists>a. TrainerInit a \<in> set (events (main sample_externals (sample_cfg\<lparr>algorithms := None\<rparr>))) \<and>
        arg_algorithms a = []"
    by blast
  from m h1 ok have c: "raised (main sample_externals sample_cfg) = None"
    by blast
  from m h1 ok have l: "(\<exists>a. TrainerInit a \<in> set (events (main sample_externals sample_cfg))) \<and>
      (\<forall>a. TrainerInit a \<in> set (events (main sample_externals sample_cfg)) \<longrightarrow>
         list_all2 (\<lambda>(nm, algorithm_cfg) alg. build_algorithm nm algorithm_cfg = Inr alg)
           ?d (arg_algorithms a))"
    by blast
  have u: "list_all2 (\<lambda>(nm, algorithm_cfg) alg. build_algorithm nm algorithm_cfg = Inr alg) ?d algs \<Longrightarrow>
      algs = [GradientClipping [(''clipping_threshold'', VFloat 1)], FusedLayerNorm []]" for algs
    by (auto simp add: list_all2_Cons1 build_algorithm_def)
  from l u have d: "\<exists>a. TrainerInit a \<in> set (events (main sample_externals sample_cfg)) \<and>
        arg_algorithms a =
          [GradientClipping [(''clipping_threshold'', VFloat 1)], FusedLayerNorm []]"
    by blast
  from h0 a b h1 c d show ?thesis by (intro conjI)
qed

section \<open>Properties of the \<^verbatim>\<open>__main__\<close> block\<close>

text \<open>
  Claim C5. The argument list of a script that has been invoked holds at least the
  script's name. When it holds nothing else, the block raises \<open>DolmaCliError\<close>
  with the usage message, and the only call made before is
  \<^verbatim>\<open>prepare_cli_environment\<close>: no configuration is loaded. When a configuration
  path is present, the block loads the configuration from that path with the cleaned
  remaining arguments as overrides, runs \<^verbatim>\<open>main\<close> on it, and ends as
  \<^verbatim>\<open>main\<close> ends, which is never with a \<open>DolmaCliError\<close>.
\<close>

theorem cli_usage_error:
  assumes "argv \<noteq> []"
  shows "(length argv < 2 \<longrightarrow>
            cli w argv =
              ([PrepareCliEnvironment],
               Some (DolmaCliError (''Usage: '' @ hd argv @ '' [CONFIG_PATH] [OPTIONS]'')))) \<and>
         (2 \<le> length argv \<longrightarrow>
            cli w argv =
              ([PrepareCliEnvironment,
                TrainConfigLoad (argv ! 1) (map (clean_opt w) (drop 2 argv))] @
               events (main w (TrainConfig_load w (argv ! 1) (map (clean_opt w) (drop 2 argv)))),
               raised (main w (TrainConfig_load w (argv ! 1) (map (clean_opt w) (drop 2 argv))))) \<and>
            (\<forall>m. snd (cli w argv) \<noteq> Some (DolmaCliError m)))"
proof (intro conjI impI allI)
  assume "length argv < 2"
  with assms obtain a where "argv = [a]"
    by (cases argv) auto
  then show "cli w argv =
        ([PrepareCliEnvironment],
         Some (DolmaCliError (''Usage: '' @ hd argv @ '' [CONFIG_PATH] [OPTIONS]'')))"
    by (simp add: cli_def)
next
  assume "2 \<le> length argv"
  then show "cli w argv =
      ([PrepareCliEnvironment,
        TrainConfigLoad (argv ! 1) (map (clean_opt w) (drop 2 argv))] @
       events (main w (TrainConfig_load w (argv ! 1) (map (clean_opt w) (drop 2 argv)))),
       raised (main w (TrainConfig_load w (argv ! 1) (map (clean_opt w) (drop 2 argv)))))"
    by (simp add: cli_def Let_def)
next
  fix m
  assume "2 \<le> length argv"
  then have "snd (cli w argv) =
      raised (main w (TrainConfig_load w (argv ! 1) (map (clean_opt w) (drop 2 argv))))"
    by (simp add: cli_def Let_def)
  then show "snd (cli w argv) \<noteq> Some (DolmaCliError m)"
    using main_raised_kinds
      [of w "TrainConfig_load w (argv ! 1) (map (clean_opt w) (drop 2 argv))" "DolmaCliError m"]
    by auto
qed

theorem cli_usage_error_witness:
  "[''scripts/train.py''] \<noteq> ([] :: string list) \<and>
   cli sample_externals [''scripts/train.py''] =
     ([PrepareCliEnvironment],
      Some (DolmaCliError ''Usage: scripts/train.py [CONFIG_PATH] [OPTIONS]'')) \<and>
   cli sample_externals [''scripts/train.py'', ''train_config.yaml'', ''--model.n_layers=5''] =
     ([PrepareCliEnvironment, TrainConfigLoad ''train_config.yaml'' [''--model.n_layers=5'']] @
      events (main sample_externals sample_cfg), None)"
proof -
  have h1: "[''scripts/train.py''] \<noteq> ([] :: string list)" by simp
  have h2: "[''scripts/train.py'', ''train_config.yaml'', ''--model.n_layers=5'']
      \<noteq> ([] :: string list)" by simp
  have a: "cli sample_externals [''scripts/train.py''] =
     ([PrepareCliEnvironment],
      Some (DolmaCliError ''Usage: scripts/train.py [CONFIG_PATH] [OPTIONS]''))"
    using cli_usage_error [OF h1, of sample_externals] by simp
  have b: "cli sample_externals [''scripts/train.py'', ''train_config.yaml'', ''--model.n_layers=5''] =
     ([PrepareCliEnvironment, TrainConfigLoad ''train_config.yaml'' [''--model.n_layers=5'']] @
      events (main sample_externals sample_cfg), None)"
    using cli_usage_error [OF h2, of sample_externals]
    by (simp add: sample_load sample_run_returns)
  from h1 a b show ?thesis by (intro conjI)
qed

end
